theory Spec2Isabelle
  imports Complex_Main
begin

section \<open>The training orchestrator of train.py\<close>

text \<open>
  The development embeds \<^verbatim>\<open>train.py\<close>: the function \<^verbatim>\<open>save_to_csv\<close> and
  the function \<^verbatim>\<open>train_model\<close> with its epoch loop, its two phases, the
  checkpoint step and the test pass.

  Conventions.
  \<^item> A Python float or a tensor entry is the real number it represents; Python
    integers are \<open>int\<close>. Floating-point addition, multiplication and division round
    their exact result: they are the fields \<open>float_add\<close>, \<open>float_mul\<close> and
    \<open>float_div\<close> of \<open>env\<close>, about which nothing is assumed. A count of samples is
    kept exactly.
  \<^item> An exception is a value: a computation on the run's state ends in \<open>Ok\<close> with
    its result and the new state, or in \<open>Fatal\<close> with the exception and the state
    reached when it was raised (files already written stay written).
  \<^item> The network, the loss, the optimiser, the schedule and the data sets belong to
    libraries outside the repository. They are the fields of the record \<open>env\<close>;
    nothing is assumed about them beyond their types.
  \<^item> Console output and wall-clock timing are left out.
\<close>

subsection \<open>Python values\<close>

datatype error =
    FileNotFoundError | UnpicklingError | RuntimeError | ValueError
  | ZeroDivisionError | AttributeError | IndexError

datatype ('a, 'w) outcome = Ok 'a 'w | Fatal error 'w

fun final_world :: "('a, 'w) outcome \<Rightarrow> 'w" where
  "final_world (Ok a w) = w"
| "final_world (Fatal e w) = w"

fun is_ok :: "('a, 'w) outcome \<Rightarrow> bool" where
  "is_ok (Ok a w) = True"
| "is_ok (Fatal e w) = False"

text \<open>\<^verbatim>\<open>str(n)\<close> for an integer: decimal digits, with a minus sign when negative.\<close>

definition digit_char :: "nat \<Rightarrow> char" where
  "digit_char d = char_of (48 + d)"

function str_nat :: "nat \<Rightarrow> string" where
  "str_nat n = (if n < 10 then [digit_char n] else str_nat (n div 10) @ [digit_char (n mod 10)])"
  by pat_completeness auto
termination
  by (relation "measure id") auto

definition str_int :: "int \<Rightarrow> string" where
  "str_int i = (if i < 0 then CHR ''-'' # str_nat (nat (- i)) else str_nat (nat i))"

text \<open>
  \<^verbatim>\<open>os.path.join(a, b)\<close>: an absolute second component replaces the first;
  otherwise the two are joined by one separator.
\<close>

definition path_join :: "string \<Rightarrow> string \<Rightarrow> string" where
  "path_join a b =
     (if b \<noteq> [] \<and> hd b = CHR ''/'' then b
      else if a = [] \<or> last a = CHR ''/'' then a @ b
      else a @ ''/'' @ b)"

subsection \<open>Configuration, files and the state of a run\<close>

text \<open>
  The module constants of lines 23 to 52 and the arguments of \<^verbatim>\<open>train_model\<close>.
  \<^verbatim>\<open>resume_epoch\<close> is the module global that \<^verbatim>\<open>train_model\<close> reads.
  \<^verbatim>\<open>saveName\<close> is computed once, at line 52, from the constant \<^verbatim>\<open>modelName\<close>
  and from the module's own \<^verbatim>\<open>dataset = 'hmdb51'\<close> of line 30, not from the
  argument \<^verbatim>\<open>dataset\<close> of \<^verbatim>\<open>train_model\<close>.
\<close>

record config =
  dataset :: string
  save_dir :: string
  num_classes :: int
  lr :: real
  num_epochs :: int
  save_epoch :: int
  useTest :: bool
  test_interval :: int
  resume_epoch :: int

definition modelName :: string where
  "modelName = ''C3D''"

definition module_dataset :: string where
  "module_dataset = ''hmdb51''"

definition saveName :: string where
  "saveName = modelName @ ''-'' @ module_dataset"

text \<open>
  A checkpoint file holds the dictionary written at line 170; a prediction dump holds
  the rows given to \<^verbatim>\<open>writerow\<close>, each a list of cells.
\<close>

datatype cell = Str string | Num int | Flt real

datatype ('p, 'o) stored =
    Checkpoint (ck_epoch: int) (ck_state_dict: 'p) (ck_opt_dict: 'o)
  | Csv "cell list list"

record ('p, 'o, 'g, 's) world =
  params :: 'p
  opt_state :: 'o
  grads :: 'g
  sched :: 's
  training :: bool
  files :: "string \<rightharpoonup> ('p, 'o) stored"
  scalars :: "(string \<times> real \<times> int) list"

text \<open>
  The library functions the run calls. \<open>model_forward p t xs\<close> is \<^verbatim>\<open>model(inputs)\<close>
  for parameters \<open>p\<close> and training flag \<open>t\<close>: one row of class scores per clip.
  \<open>scheduler_step\<close> returns the schedule and the optimiser whose learning rate it sets.
\<close>

record ('p, 'o, 'g, 's, 'x) env =
  C3D :: "int \<Rightarrow> 'p"
  Adam :: "'p \<Rightarrow> real \<Rightarrow> 'o"
  CosineAnnealingLR :: "'o \<Rightarrow> 's \<times> 'o"
  grad_none :: 'g
  fits_state_dict :: "'p \<Rightarrow> 'p \<Rightarrow> bool"
  fits_opt_dict :: "'o \<Rightarrow> 'o \<Rightarrow> bool"
  VideoDataset :: "string \<Rightarrow> string \<Rightarrow> ('x \<times> int) list"
  shuffle :: "int \<Rightarrow> ('x \<times> int) list \<Rightarrow> ('x \<times> int) list"
  model_forward :: "'p \<Rightarrow> bool \<Rightarrow> 'x list \<Rightarrow> real list list"
  softmax :: "real list \<Rightarrow> real list"
  criterion :: "real list list \<Rightarrow> int list \<Rightarrow> real"
  zero_grad :: "'g \<Rightarrow> 'g"
  backward :: "'p \<Rightarrow> 'x list \<Rightarrow> int list \<Rightarrow> 'g \<Rightarrow> 'g"
  optimizer_step :: "'o \<Rightarrow> 'p \<Rightarrow> 'g \<Rightarrow> 'o \<times> 'p"
  scheduler_step :: "'s \<Rightarrow> 'o \<Rightarrow> 's \<times> 'o"
  float_add :: "real \<Rightarrow> real \<Rightarrow> real"
  float_mul :: "real \<Rightarrow> real \<Rightarrow> real"
  float_div :: "real \<Rightarrow> real \<Rightarrow> real"

text \<open>\<^verbatim>\<open>a / n\<close> for a float and an integer count: division by zero raises.\<close>

definition py_div :: "('p, 'o, 'g, 's, 'x) env \<Rightarrow> real \<Rightarrow> nat \<Rightarrow> error + real" where
  "py_div env a n = (if n = 0 then Inl ZeroDivisionError else Inr (float_div env a (real n)))"

subsection \<open>File names\<close>

definition models_dir :: "config \<Rightarrow> string" where
  "models_dir cfg = path_join (save_dir cfg) ''models''"

definition predictions_dir :: "config \<Rightarrow> string" where
  "predictions_dir cfg = path_join (save_dir cfg) ''predictions''"

definition ckpt_name :: "int \<Rightarrow> string" where
  "ckpt_name e = saveName @ ''_epoch-'' @ str_int e @ ''.pth.tar''"

definition ckpt_path :: "config \<Rightarrow> int \<Rightarrow> string" where
  "ckpt_path cfg e = path_join (models_dir cfg) (ckpt_name e)"

definition csv_name :: "string \<Rightarrow> int \<Rightarrow> string" where
  "csv_name phase epoch = phase @ ''_epoch_'' @ str_int epoch @ ''.csv''"

subsection \<open>save_to_csv (lines 56 to 67)\<close>

definition csv_rows :: "int list \<Rightarrow> real list \<Rightarrow> cell list list" where
  "csv_rows labels probs =
     [Str ''TrueLabel'', Str ''Probability'']
       # map (\<lambda>(label, prob). [Num label, Flt prob]) (zip labels probs)"

definition save_to_csv ::
  "int \<Rightarrow> string \<Rightarrow> int list \<Rightarrow> real list \<Rightarrow> string
     \<Rightarrow> ('p, 'o, 'g, 's) world \<Rightarrow> ('p, 'o, 'g, 's) world" where
  "save_to_csv epoch phase labels probs dir w =
     (let filename = path_join dir (csv_name phase epoch)
      in w\<lparr>files := (files w)(filename \<mapsto> Csv (csv_rows labels probs))\<rparr>)"

subsection \<open>The metrics library\<close>

text \<open>
  Modelled from the spec: \<^verbatim>\<open>roc_auc_score\<close> and \<^verbatim>\<open>recall_score\<close> are functions of
  the metrics library, outside the repository. The spec (section 4.1, error
  conditions, and section 7) says that a split with a single class present in the true
  labels makes the AUC undefined and that the source lets this propagate as a fatal
  error; sensitivity and specificity are the recall of the positive and of the
  negative class. The definitions below follow the library's contract for binary
  targets: the AUC needs exactly two classes among the true labels, the larger being
  the positive one, and is the share of (positive, negative) pairs that the score
  orders correctly, a tie counting one half; recall with \<^verbatim>\<open>average='binary'\<close>
  rejects more than two labels, and rejects a \<^verbatim>\<open>pos_label\<close> that is not among the
  labels present, and is zero where the class has no sample.
\<close>

definition auc_value :: "int \<Rightarrow> int list \<Rightarrow> real list \<Rightarrow> real" where
  "auc_value pos ys ss =
     (let ps = map snd (filter (\<lambda>(y, s). y = pos) (zip ys ss));
          ns = map snd (filter (\<lambda>(y, s). y \<noteq> pos) (zip ys ss))
      in (\<Sum>p\<leftarrow>ps. \<Sum>n\<leftarrow>ns. if n < p then 1 else if n = p then 1 / 2 else 0)
           / (real (length ps) * real (length ns)))"

definition roc_auc_score :: "int list \<Rightarrow> real list \<Rightarrow> error + real" where
  "roc_auc_score y_true y_score =
     (if length y_true \<noteq> length y_score then Inl ValueError
      else case sort (remdups y_true) of
             [neg, pos] \<Rightarrow> Inr (auc_value pos y_true y_score)
           | _ \<Rightarrow> Inl ValueError)"

definition recall_score :: "int list \<Rightarrow> int list \<Rightarrow> int \<Rightarrow> error + real" where
  "recall_score y_true y_pred pos_label =
     (let present = remdups (y_true @ y_pred) in
      if length y_true \<noteq> length y_pred then Inl ValueError
      else if 2 < length present then Inl ValueError
      else if pos_label \<notin> set present \<and> 2 \<le> length present then Inl ValueError
      else
        let tp = length (filter (\<lambda>(t, p). t = pos_label \<and> p = pos_label) (zip y_true y_pred));
            n = length (filter (\<lambda>t. t = pos_label) y_true)
        in Inr (if n = 0 then 0 else real tp / real n))"

text \<open>The list comprehension \<^verbatim>\<open>[1 if p > 0.5 else 0 for p in running_probs]\<close>.\<close>

definition threshold :: "real list \<Rightarrow> int list" where
  "threshold ps = map (\<lambda>p. if p > 0.5 then 1 else 0) ps"

subsection \<open>Tensor operations of the loop body\<close>

text \<open>
  \<^verbatim>\<open>torch.max(probs, 1)[1]\<close>: for each row the index of its greatest entry, the first
  one where several are greatest.
\<close>

fun argmax :: "real list \<Rightarrow> nat" where
  "argmax [] = 0"
| "argmax (x # xs) = (if list_all (\<lambda>v. v \<le> x) xs then 0 else Suc (argmax xs))"

text \<open>\<^verbatim>\<open>probs[:, 1]\<close>: the second column; a row without one is an index error.\<close>

fun column1 :: "real list list \<Rightarrow> real list option" where
  "column1 [] = Some []"
| "column1 (r # rs) =
     (case r of
        a # b # rest \<Rightarrow> (case column1 rs of None \<Rightarrow> None | Some c \<Rightarrow> Some (b # c))
      | _ \<Rightarrow> None)"

text \<open>\<^verbatim>\<open>torch.sum(preds == labels.data)\<close>.\<close>

definition count_equal :: "nat list \<Rightarrow> int list \<Rightarrow> nat" where
  "count_equal preds labels = length (filter (\<lambda>(p, l). int p = l) (zip preds labels))"

text \<open>\<^verbatim>\<open>DataLoader(..., batch_size=n)\<close>: consecutive groups of \<open>n\<close> samples.\<close>

function batches_of :: "nat \<Rightarrow> 'a list \<Rightarrow> 'a list list" where
  "batches_of n xs =
     (if n = 0 \<or> xs = [] then [] else take n xs # batches_of n (drop n xs))"
  by pat_completeness auto
termination
  by (relation "measure (\<lambda>(n, xs). length xs)") auto

subsection \<open>One batch of a train or validation phase (lines 118 to 140)\<close>

record accumulators =
  running_loss :: real
  running_corrects :: nat
  running_probs :: "real list"
  running_labels :: "int list"

definition acc0 :: accumulators where
  "acc0 = \<lparr>running_loss = 0, running_corrects = 0, running_probs = [], running_labels = []\<rparr>"

text \<open>
  \<open>accumulate\<close> is lines 136 to 140 (and 197 to 201): the four running values after
  one more batch. \<^verbatim>\<open>probs[:, 1]\<close> is read last, after the loss and the count.
\<close>

definition accumulate ::
  "('p, 'o, 'g, 's, 'x) env \<Rightarrow> real \<Rightarrow> nat \<Rightarrow> nat list \<Rightarrow> int list \<Rightarrow> real list list
     \<Rightarrow> accumulators \<Rightarrow> accumulators option" where
  "accumulate env loss n preds labels probs acc =
     (case column1 probs of
        None \<Rightarrow> None
      | Some p1 \<Rightarrow>
          Some \<lparr>running_loss = float_add env (running_loss acc) (float_mul env loss (real n)),
                running_corrects = running_corrects acc + count_equal preds labels,
                running_probs = running_probs acc @ p1,
                running_labels = running_labels acc @ labels\<rparr>)"

text \<open>
  The body of the loop at line 118 for one batch. The forward pass is the same call in
  both branches (\<^verbatim>\<open>torch.no_grad()\<close> only switches gradient tracking off); the
  backward pass and the optimiser step run in the train phase only. Taking the
  greatest entry of a row needs a non-empty row, and the loss needs one row of scores
  per label: the library raises otherwise.
\<close>

definition train_step ::
  "('p, 'o, 'g, 's, 'x) env \<Rightarrow> 'x list \<Rightarrow> int list
     \<Rightarrow> ('p, 'o, 'g, 's) world \<Rightarrow> ('p, 'o, 'g, 's) world" where
  "train_step env inputs labels w =
     (let g = backward env (params w) inputs labels (grads w);
          (o', p') = optimizer_step env (opt_state w) (params w) g
      in w\<lparr>grads := g, opt_state := o', params := p'\<rparr>)"

definition process_batch ::
  "('p, 'o, 'g, 's, 'x) env \<Rightarrow> bool \<Rightarrow> ('x \<times> int) list \<Rightarrow> accumulators
     \<Rightarrow> ('p, 'o, 'g, 's) world \<Rightarrow> (accumulators, ('p, 'o, 'g, 's) world) outcome" where
  "process_batch env is_train batch acc w =
     (let inputs = map fst batch;
          labels = map snd batch;
          w1 = w\<lparr>grads := zero_grad env (grads w)\<rparr>;
          outputs = model_forward env (params w1) (training w1) inputs;
          probs = map (softmax env) outputs
      in if [] \<in> set probs then Fatal IndexError w1
         else
           let preds = map argmax probs in
           if length outputs \<noteq> length labels then Fatal ValueError w1
           else
             let loss = criterion env outputs labels;
                 w2 = (if is_train then train_step env inputs labels w1 else w1)
             in case accumulate env loss (length inputs) preds labels probs acc of
                  None \<Rightarrow> Fatal IndexError w2
                | Some acc' \<Rightarrow> Ok acc' w2)"

fun run_batches ::
  "('p, 'o, 'g, 's, 'x) env \<Rightarrow> bool \<Rightarrow> ('x \<times> int) list list \<Rightarrow> accumulators
     \<Rightarrow> ('p, 'o, 'g, 's) world \<Rightarrow> (accumulators, ('p, 'o, 'g, 's) world) outcome" where
  "run_batches env is_train [] acc w = Ok acc w"
| "run_batches env is_train (b # bs) acc w =
     (case process_batch env is_train b acc w of
        Fatal e w' \<Rightarrow> Fatal e w'
      | Ok acc' w' \<Rightarrow> run_batches env is_train bs acc' w')"

subsection \<open>The metrics of a finished split (lines 142 to 146 and 203 to 207)\<close>

record metrics =
  epoch_loss :: real
  epoch_acc :: real
  epoch_auc :: real
  epoch_sensitivity :: real
  epoch_specificity :: real

text \<open>
  \<open>nbatches\<close> is the number of batches the loop consumed: with none,
  \<^verbatim>\<open>running_corrects\<close> is still the float \<^verbatim>\<open>0.0\<close>, which has no method
  \<^verbatim>\<open>double\<close>.
\<close>

definition epoch_metrics ::
  "('p, 'o, 'g, 's, 'x) env \<Rightarrow> nat \<Rightarrow> nat \<Rightarrow> accumulators \<Rightarrow> error + metrics" where
  "epoch_metrics env nbatches nsamples acc =
     (case py_div env (running_loss acc) nsamples of
        Inl e \<Rightarrow> Inl e
      | Inr loss \<Rightarrow>
          if nbatches = 0 then Inl AttributeError
          else
            case py_div env (real (running_corrects acc)) nsamples of
              Inl e \<Rightarrow> Inl e
            | Inr accuracy \<Rightarrow>
               (case roc_auc_score (running_labels acc) (running_probs acc) of
                  Inl e \<Rightarrow> Inl e
                | Inr auc \<Rightarrow>
                   (case recall_score (running_labels acc) (threshold (running_probs acc)) 1 of
                      Inl e \<Rightarrow> Inl e
                    | Inr sens \<Rightarrow>
                       (case recall_score (running_labels acc) (threshold (running_probs acc)) 0 of
                          Inl e \<Rightarrow> Inl e
                        | Inr spec \<Rightarrow>
                            Inr \<lparr>epoch_loss = loss, epoch_acc = accuracy, epoch_auc = auc,
                                 epoch_sensitivity = sens, epoch_specificity = spec\<rparr>))))"

text \<open>\<^verbatim>\<open>writer.add_scalar(tag, value, epoch)\<close> appends to the scalar log.\<close>

definition add_scalar ::
  "string \<Rightarrow> real \<Rightarrow> int \<Rightarrow> ('p, 'o, 'g, 's) world \<Rightarrow> ('p, 'o, 'g, 's) world" where
  "add_scalar tag v step w = w\<lparr>scalars := scalars w @ [(tag, v, step)]\<rparr>"

text \<open>
  The five calls of lines 152 to 156, 158 to 162 and 212 to 216; \<open>ns\<close> is
  \<^verbatim>\<open>'train'\<close>, \<^verbatim>\<open>'val'\<close> or \<^verbatim>\<open>'test'\<close>.
\<close>

definition log_metrics ::
  "string \<Rightarrow> metrics \<Rightarrow> int \<Rightarrow> ('p, 'o, 'g, 's) world \<Rightarrow> ('p, 'o, 'g, 's) world" where
  "log_metrics ns m epoch w =
     add_scalar (''data/'' @ ns @ ''_specificity_epoch'') (epoch_specificity m) epoch
      (add_scalar (''data/'' @ ns @ ''_sensitivity_epoch'') (epoch_sensitivity m) epoch
        (add_scalar (''data/'' @ ns @ ''_auc_epoch'') (epoch_auc m) epoch
          (add_scalar (''data/'' @ ns @ ''_acc_epoch'') (epoch_acc m) epoch
            (add_scalar (''data/'' @ ns @ ''_loss_epoch'') (epoch_loss m) epoch w))))"

text \<open>What follows the batch loop of a split: metrics, then the dump, then the log.\<close>

definition finish_split ::
  "('p, 'o, 'g, 's, 'x) env \<Rightarrow> config \<Rightarrow> int \<Rightarrow> string \<Rightarrow> nat \<Rightarrow> nat \<Rightarrow> accumulators
     \<Rightarrow> ('p, 'o, 'g, 's) world \<Rightarrow> (unit, ('p, 'o, 'g, 's) world) outcome" where
  "finish_split env cfg epoch ns nbatches nsamples acc w =
     (case epoch_metrics env nbatches nsamples acc of
        Inl e \<Rightarrow> Fatal e w
      | Inr m \<Rightarrow>
          Ok () (log_metrics ns m epoch
                  (save_to_csv epoch ns (running_labels acc) (running_probs acc)
                     (predictions_dir cfg) w)))"

subsection \<open>Phases, checkpoint step, test pass and epoch loop (lines 95 to 221)\<close>

datatype phase = Train | Val

fun phase_name :: "phase \<Rightarrow> string" where
  "phase_name Train = ''train''"
| "phase_name Val = ''val''"

text \<open>
  The three loaders of lines 95 to 97: batches of four, the train split reshuffled at
  every epoch. The sizes are \<^verbatim>\<open>len(loader.dataset)\<close>.
\<close>

definition trainval_loader ::
  "('p, 'o, 'g, 's, 'x) env \<Rightarrow> config \<Rightarrow> phase \<Rightarrow> int \<Rightarrow> ('x \<times> int) list list" where
  "trainval_loader env cfg ph epoch =
     (case ph of
        Train \<Rightarrow> batches_of 4 (shuffle env epoch (VideoDataset env (dataset cfg) ''train''))
      | Val \<Rightarrow> batches_of 4 (VideoDataset env (dataset cfg) ''val''))"

definition trainval_sizes :: "('p, 'o, 'g, 's, 'x) env \<Rightarrow> config \<Rightarrow> phase \<Rightarrow> nat" where
  "trainval_sizes env cfg ph = length (VideoDataset env (dataset cfg) (phase_name ph))"

definition test_loader ::
  "('p, 'o, 'g, 's, 'x) env \<Rightarrow> config \<Rightarrow> ('x \<times> int) list list" where
  "test_loader env cfg = batches_of 4 (VideoDataset env (dataset cfg) ''test'')"

definition test_size :: "('p, 'o, 'g, 's, 'x) env \<Rightarrow> config \<Rightarrow> nat" where
  "test_size env cfg = length (VideoDataset env (dataset cfg) ''test'')"

text \<open>Lines 112 to 116: the schedule advances in the train phase only.\<close>

definition enter_phase ::
  "('p, 'o, 'g, 's, 'x) env \<Rightarrow> phase \<Rightarrow> ('p, 'o, 'g, 's) world \<Rightarrow> ('p, 'o, 'g, 's) world" where
  "enter_phase env ph w =
     (case ph of
        Train \<Rightarrow>
          (let (s', o') = scheduler_step env (sched w) (opt_state w)
           in w\<lparr>sched := s', opt_state := o', training := True\<rparr>)
      | Val \<Rightarrow> w\<lparr>training := False\<rparr>)"

definition run_phase ::
  "('p, 'o, 'g, 's, 'x) env \<Rightarrow> config \<Rightarrow> int \<Rightarrow> phase
     \<Rightarrow> ('p, 'o, 'g, 's) world \<Rightarrow> (unit, ('p, 'o, 'g, 's) world) outcome" where
  "run_phase env cfg epoch ph w =
     (let bs = trainval_loader env cfg ph epoch in
      case run_batches env (ph = Train) bs acc0 (enter_phase env ph w) of
        Fatal e w' \<Rightarrow> Fatal e w'
      | Ok acc w' \<Rightarrow>
          finish_split env cfg epoch (phase_name ph) (length bs) (trainval_sizes env cfg ph)
            acc w')"

text \<open>\<^verbatim>\<open>a % b\<close> on integers: the remainder has the sign of \<open>b\<close>; zero raises.\<close>

definition py_mod :: "int \<Rightarrow> int \<Rightarrow> error + int" where
  "py_mod a b = (if b = 0 then Inl ZeroDivisionError else Inr (a mod b))"

text \<open>Lines 169 to 175.\<close>

definition checkpoint_step ::
  "config \<Rightarrow> int \<Rightarrow> ('p, 'o, 'g, 's) world \<Rightarrow> (unit, ('p, 'o, 'g, 's) world) outcome" where
  "checkpoint_step cfg epoch w =
     (case py_mod epoch (save_epoch cfg) of
        Inl e \<Rightarrow> Fatal e w
      | Inr r \<Rightarrow>
          if r = save_epoch cfg - 1
          then Ok () (w\<lparr>files := (files w)(ckpt_path cfg epoch \<mapsto>
                              Checkpoint (epoch + 1) (params w) (opt_state w))\<rparr>)
          else Ok () w)"

text \<open>
  Lines 186 to 201: one batch of the test pass. Unlike the loop of line 118 it does not
  call \<^verbatim>\<open>optimizer.zero_grad()\<close>.
\<close>

definition test_batch ::
  "('p, 'o, 'g, 's, 'x) env \<Rightarrow> ('x \<times> int) list \<Rightarrow> accumulators
     \<Rightarrow> ('p, 'o, 'g, 's) world \<Rightarrow> (accumulators, ('p, 'o, 'g, 's) world) outcome" where
  "test_batch env batch acc w =
     (let inputs = map fst batch;
          labels = map snd batch;
          outputs = model_forward env (params w) (training w) inputs;
          probs = map (softmax env) outputs
      in if [] \<in> set probs then Fatal IndexError w
         else
           let preds = map argmax probs in
           if length outputs \<noteq> length labels then Fatal ValueError w
           else
             let loss = criterion env outputs labels
             in case accumulate env loss (length inputs) preds labels probs acc of
                  None \<Rightarrow> Fatal IndexError w
                | Some acc' \<Rightarrow> Ok acc' w)"

fun run_test_batches ::
  "('p, 'o, 'g, 's, 'x) env \<Rightarrow> ('x \<times> int) list list \<Rightarrow> accumulators
     \<Rightarrow> ('p, 'o, 'g, 's) world \<Rightarrow> (accumulators, ('p, 'o, 'g, 's) world) outcome" where
  "run_test_batches env [] acc w = Ok acc w"
| "run_test_batches env (b # bs) acc w =
     (case test_batch env b acc w of
        Fatal e w' \<Rightarrow> Fatal e w'
      | Ok acc' w' \<Rightarrow> run_test_batches env bs acc' w')"

text \<open>Lines 178 to 216: the body of the test branch.\<close>

definition test_pass ::
  "('p, 'o, 'g, 's, 'x) env \<Rightarrow> config \<Rightarrow> int
     \<Rightarrow> ('p, 'o, 'g, 's) world \<Rightarrow> (unit, ('p, 'o, 'g, 's) world) outcome" where
  "test_pass env cfg epoch w =
     (let bs = test_loader env cfg in
      case run_test_batches env bs acc0 (w\<lparr>training := False\<rparr>) of
        Fatal e w' \<Rightarrow> Fatal e w'
      | Ok acc w' \<Rightarrow>
          finish_split env cfg epoch ''test'' (length bs) (test_size env cfg) acc w')"

text \<open>Line 177: \<^verbatim>\<open>and\<close> does not evaluate the remainder when \<^verbatim>\<open>useTest\<close> is false.\<close>

definition test_step ::
  "('p, 'o, 'g, 's, 'x) env \<Rightarrow> config \<Rightarrow> int
     \<Rightarrow> ('p, 'o, 'g, 's) world \<Rightarrow> (unit, ('p, 'o, 'g, 's) world) outcome" where
  "test_step env cfg epoch w =
     (if \<not> useTest cfg then Ok () w
      else case py_mod epoch (test_interval cfg) of
             Inl e \<Rightarrow> Fatal e w
           | Inr r \<Rightarrow> if r = test_interval cfg - 1 then test_pass env cfg epoch w else Ok () w)"

text \<open>The body of the loop at line 103.\<close>

definition run_epoch ::
  "('p, 'o, 'g, 's, 'x) env \<Rightarrow> config \<Rightarrow> int
     \<Rightarrow> ('p, 'o, 'g, 's) world \<Rightarrow> (unit, ('p, 'o, 'g, 's) world) outcome" where
  "run_epoch env cfg epoch w =
     (case run_phase env cfg epoch Train w of
        Fatal e w' \<Rightarrow> Fatal e w'
      | Ok u w1 \<Rightarrow>
         (case run_phase env cfg epoch Val w1 of
            Fatal e w' \<Rightarrow> Fatal e w'
          | Ok u w2 \<Rightarrow>
             (case checkpoint_step cfg epoch w2 of
                Fatal e w' \<Rightarrow> Fatal e w'
              | Ok u w3 \<Rightarrow> test_step env cfg epoch w3)))"

fun run_epochs ::
  "('p, 'o, 'g, 's, 'x) env \<Rightarrow> config \<Rightarrow> int list
     \<Rightarrow> ('p, 'o, 'g, 's) world \<Rightarrow> (unit, ('p, 'o, 'g, 's) world) outcome" where
  "run_epochs env cfg [] w = Ok () w"
| "run_epochs env cfg (epoch # rest) w =
     (case run_epoch env cfg epoch w of
        Fatal e w' \<Rightarrow> Fatal e w'
      | Ok u w' \<Rightarrow> run_epochs env cfg rest w')"

text \<open>\<^verbatim>\<open>range(resume_epoch, num_epochs)\<close>.\<close>

definition epoch_range :: "config \<Rightarrow> int list" where
  "epoch_range cfg = [resume_epoch cfg .. num_epochs cfg - 1]"

subsection \<open>Start of the run (lines 72 to 85) and train_model\<close>

text \<open>
  The state after the four constructors of lines 72 to 75, on the files already on
  disk. A new module is in training mode; the scalar log is a new, empty event file.
\<close>

definition initial_world ::
  "('p, 'o, 'g, 's, 'x) env \<Rightarrow> config \<Rightarrow> (string \<rightharpoonup> ('p, 'o) stored)
     \<Rightarrow> ('p, 'o, 'g, 's) world" where
  "initial_world env cfg fs =
     (let model = C3D env (num_classes cfg);
          (scheduler, optimizer) = CosineAnnealingLR env (Adam env model (lr cfg))
      in \<lparr>params = model, opt_state = optimizer, grads = grad_none env, sched = scheduler,
          training = True, files = fs, scalars = []\<rparr>)"

text \<open>
  The else branch of line 77. \<^verbatim>\<open>torch.load\<close> raises when the file is absent or is
  not a pickled dictionary; \<^verbatim>\<open>load_state_dict\<close> raises when the stored entries do
  not fit the receiving model or optimiser.
\<close>

definition load_checkpoint ::
  "('p, 'o, 'g, 's, 'x) env \<Rightarrow> config
     \<Rightarrow> ('p, 'o, 'g, 's) world \<Rightarrow> (unit, ('p, 'o, 'g, 's) world) outcome" where
  "load_checkpoint env cfg w =
     (case files w (ckpt_path cfg (resume_epoch cfg - 1)) of
        None \<Rightarrow> Fatal FileNotFoundError w
      | Some (Csv rows) \<Rightarrow> Fatal UnpicklingError w
      | Some (Checkpoint ep sd od) \<Rightarrow>
          if \<not> fits_state_dict env (params w) sd then Fatal RuntimeError w
          else
            let w1 = w\<lparr>params := sd\<rparr> in
            if \<not> fits_opt_dict env (opt_state w1) od then Fatal ValueError w1
            else Ok () (w1\<lparr>opt_state := od\<rparr>))"

definition resume ::
  "('p, 'o, 'g, 's, 'x) env \<Rightarrow> config
     \<Rightarrow> ('p, 'o, 'g, 's) world \<Rightarrow> (unit, ('p, 'o, 'g, 's) world) outcome" where
  "resume env cfg w = (if resume_epoch cfg = 0 then Ok () w else load_checkpoint env cfg w)"

definition train_model ::
  "('p, 'o, 'g, 's, 'x) env \<Rightarrow> config \<Rightarrow> (string \<rightharpoonup> ('p, 'o) stored)
     \<Rightarrow> (unit, ('p, 'o, 'g, 's) world) outcome" where
  "train_model env cfg fs =
     (case resume env cfg (initial_world env cfg fs) of
        Fatal e w \<Rightarrow> Fatal e w
      | Ok u w \<Rightarrow> run_epochs env cfg (epoch_range cfg) w)"

section \<open>Notions used in the statements\<close>

subsection \<open>Files and splits\<close>

text \<open>
  The three splits of the data, and the two kinds of file a run writes, each path
  spelled out: the prediction dump of a split and an epoch, and the checkpoint of an
  epoch.
\<close>

datatype data_split = TrainSplit | ValSplit | TestSplit

fun split_name :: "data_split \<Rightarrow> string" where
  "split_name TrainSplit = ''train''"
| "split_name ValSplit = ''val''"
| "split_name TestSplit = ''test''"

definition dump_file :: "config \<Rightarrow> string \<Rightarrow> int \<Rightarrow> string" where
  "dump_file cfg ns e =
     path_join (path_join (save_dir cfg) ''predictions'') (ns @ ''_epoch_'' @ str_int e @ ''.csv'')"

definition ckpt_file :: "config \<Rightarrow> int \<Rightarrow> string" where
  "ckpt_file cfg e =
     path_join (path_join (save_dir cfg) ''models'')
       (''C3D-hmdb51_epoch-'' @ str_int e @ ''.pth.tar'')"

text \<open>Reading a decimal numeral back, and the directory part of a joined path.\<close>

definition digit_val :: "char \<Rightarrow> nat" where
  "digit_val c = of_char c - 48"

definition val_nat :: "string \<Rightarrow> nat" where
  "val_nat s = foldl (\<lambda>a c. 10 * a + digit_val c) 0 s"

definition path_prefix :: "string \<Rightarrow> string" where
  "path_prefix a = (if a = [] \<or> last a = CHR ''/'' then a else a @ ''/'')"

text \<open>
  The samples of a split in the order in which an epoch meets them, the number of
  samples of the split, and the batches of four in which the loader hands them out.
\<close>

definition split_samples ::
  "('p, 'o, 'g, 's, 'x) env \<Rightarrow> config \<Rightarrow> data_split \<Rightarrow> int \<Rightarrow> ('x \<times> int) list" where
  "split_samples env cfg s e =
     (case s of
        TrainSplit \<Rightarrow> shuffle env e (VideoDataset env (dataset cfg) ''train'')
      | ValSplit \<Rightarrow> VideoDataset env (dataset cfg) ''val''
      | TestSplit \<Rightarrow> VideoDataset env (dataset cfg) ''test'')"

definition split_count :: "('p, 'o, 'g, 's, 'x) env \<Rightarrow> config \<Rightarrow> data_split \<Rightarrow> nat" where
  "split_count env cfg s = length (VideoDataset env (dataset cfg) (split_name s))"

definition split_batches ::
  "('p, 'o, 'g, 's, 'x) env \<Rightarrow> config \<Rightarrow> data_split \<Rightarrow> int \<Rightarrow> ('x \<times> int) list list" where
  "split_batches env cfg s e = batches_of 4 (split_samples env cfg s e)"

text \<open>
  The test split is evaluated at epoch \<open>e\<close> when the test pass is enabled and \<open>e + 1\<close>
  is a multiple of the (positive) test interval; the other two splits at every epoch.
\<close>

definition runs_split :: "config \<Rightarrow> data_split \<Rightarrow> int \<Rightarrow> bool" where
  "runs_split cfg s e =
     (case s of
        TestSplit \<Rightarrow> useTest cfg \<and> 0 < test_interval cfg \<and> (e + 1) mod test_interval cfg = 0
      | _ \<Rightarrow> True)"

subsection \<open>One batch\<close>

text \<open>
  What one batch contributes, for the parameters \<open>p\<close> and the mode \<open>t\<close> in force when
  the batch is reached: the class probabilities of its clips, its loss, the
  positive-class probability of each clip (the entry of index 1 of its row), and its
  rows in the dump.
\<close>

definition batch_probs ::
  "('p, 'o, 'g, 's, 'x) env \<Rightarrow> 'p \<Rightarrow> bool \<Rightarrow> ('x \<times> int) list \<Rightarrow> real list list" where
  "batch_probs env p t b = map (softmax env) (model_forward env p t (map fst b))"

definition batch_loss ::
  "('p, 'o, 'g, 's, 'x) env \<Rightarrow> 'p \<Rightarrow> bool \<Rightarrow> ('x \<times> int) list \<Rightarrow> real" where
  "batch_loss env p t b = criterion env (model_forward env p t (map fst b)) (map snd b)"

definition positive_probs ::
  "('p, 'o, 'g, 's, 'x) env \<Rightarrow> 'p \<Rightarrow> bool \<Rightarrow> ('x \<times> int) list \<Rightarrow> real list" where
  "positive_probs env p t b = map (\<lambda>r. r ! 1) (batch_probs env p t b)"

definition batch_rows ::
  "('p, 'o, 'g, 's, 'x) env \<Rightarrow> 'p \<Rightarrow> bool \<Rightarrow> ('x \<times> int) list \<Rightarrow> cell list list" where
  "batch_rows env p t b =
     map (\<lambda>(l, q). [Num l, Flt q]) (zip (map snd b) (positive_probs env p t b))"

text \<open>
  The state after one batch of the loop at line 118, and the parameters in force at
  each batch of a split: in the train phase they change from batch to batch.
\<close>

definition next_world ::
  "('p, 'o, 'g, 's, 'x) env \<Rightarrow> bool \<Rightarrow> ('x \<times> int) list
     \<Rightarrow> ('p, 'o, 'g, 's) world \<Rightarrow> ('p, 'o, 'g, 's) world" where
  "next_world env is_train b w =
     (let w1 = w\<lparr>grads := zero_grad env (grads w)\<rparr>
      in if is_train then train_step env (map fst b) (map snd b) w1 else w1)"

fun batch_params ::
  "('p, 'o, 'g, 's, 'x) env \<Rightarrow> bool \<Rightarrow> ('x \<times> int) list list
     \<Rightarrow> ('p, 'o, 'g, 's) world \<Rightarrow> 'p list" where
  "batch_params env is_train [] w = []"
| "batch_params env is_train (b # bs) w =
     params w # batch_params env is_train bs (next_world env is_train b w)"

subsection \<open>A split\<close>

text \<open>
  The sum over the batches of a split of batch loss times batch size, added up from
  0.0 in the order of the batches with the floating-point operations; the same sum in
  exact arithmetic; the positive-class probabilities and the dump rows of its samples
  in the order they are met.
\<close>

definition weighted_losses ::
  "('p, 'o, 'g, 's, 'x) env \<Rightarrow> bool \<Rightarrow> 'p list \<Rightarrow> ('x \<times> int) list list \<Rightarrow> real" where
  "weighted_losses env t ps bs =
     foldl (\<lambda>s (p, b). float_add env s (float_mul env (batch_loss env p t b) (real (length b))))
       0 (zip ps bs)"

definition exact_weighted_losses ::
  "('p, 'o, 'g, 's, 'x) env \<Rightarrow> bool \<Rightarrow> 'p list \<Rightarrow> ('x \<times> int) list list \<Rightarrow> real" where
  "exact_weighted_losses env t ps bs =
     (\<Sum>(p, b)\<leftarrow>zip ps bs. batch_loss env p t b * real (length b))"

definition exact_floats :: "('p, 'o, 'g, 's, 'x) env \<Rightarrow> bool" where
  "exact_floats env =
     (float_add env = (\<lambda>x y. x + y) \<and> float_mul env = (\<lambda>x y. x * y)
      \<and> float_div env = (\<lambda>x y. x / y))"

definition observed_probs ::
  "('p, 'o, 'g, 's, 'x) env \<Rightarrow> bool \<Rightarrow> 'p list \<Rightarrow> ('x \<times> int) list list \<Rightarrow> real list" where
  "observed_probs env t ps bs = concat (map (\<lambda>(p, b). positive_probs env p t b) (zip ps bs))"

definition sample_rows ::
  "('p, 'o, 'g, 's, 'x) env \<Rightarrow> bool \<Rightarrow> 'p list \<Rightarrow> ('x \<times> int) list list \<Rightarrow> cell list list" where
  "sample_rows env t ps bs = concat (map (\<lambda>(p, b). batch_rows env p t b) (zip ps bs))"

text \<open>
  The two counts behind the two accuracies: the samples whose label is the class the
  threshold 0.5 predicts from the dumped probability, and the samples whose label is
  the index of the greatest class probability, batch by batch.
\<close>

definition threshold_hits :: "int list \<Rightarrow> real list \<Rightarrow> nat" where
  "threshold_hits ls ps =
     length (filter (\<lambda>(l, p). l = (if p > 0.5 then 1 else 0)) (zip ls ps))"

definition argmax_hits ::
  "('p, 'o, 'g, 's, 'x) env \<Rightarrow> bool \<Rightarrow> 'p list \<Rightarrow> ('x \<times> int) list list \<Rightarrow> nat" where
  "argmax_hits env t ps bs =
     (\<Sum>(p, b)\<leftarrow>zip ps bs. count_equal (map argmax (batch_probs env p t b)) (map snd b))"

text \<open>
  The accuracy recomputed from a dump: a data row is right when its label is the class
  predicted by the threshold 0.5 on its probability; the number of right rows is
  divided by the number of data rows.
\<close>

fun row_correct :: "cell list \<Rightarrow> bool" where
  "row_correct [Num l, Flt p] = (l = (if p > 0.5 then 1 else 0))"
| "row_correct r = False"

definition dump_accuracy :: "('p, 'o, 'g, 's, 'x) env \<Rightarrow> cell list list \<Rightarrow> real" where
  "dump_accuracy env rows =
     float_div env (real (length (filter row_correct (tl rows)))) (real (length (tl rows)))"

definition dump_of :: "('p, 'o) stored option \<Rightarrow> cell list list" where
  "dump_of f = (case f of Some (Csv rows) \<Rightarrow> rows | _ \<Rightarrow> [])"

subsection \<open>The course of a run\<close>

text \<open>
  The states a run goes through: after the start (lines 72 to 85), at the start of
  epoch \<open>e\<close>, after its train phase, after its validation phase and after its
  checkpoint step; then the state in which the first batch of a split is met, the
  parameters in force at each of its batches and the mode of the network.
\<close>

definition run_start ::
  "('p, 'o, 'g, 's, 'x) env \<Rightarrow> config \<Rightarrow> (string \<rightharpoonup> ('p, 'o) stored)
     \<Rightarrow> ('p, 'o, 'g, 's) world" where
  "run_start env cfg fs = final_world (resume env cfg (initial_world env cfg fs))"

definition epoch_start ::
  "('p, 'o, 'g, 's, 'x) env \<Rightarrow> config \<Rightarrow> (string \<rightharpoonup> ('p, 'o) stored) \<Rightarrow> int
     \<Rightarrow> ('p, 'o, 'g, 's) world" where
  "epoch_start env cfg fs e =
     final_world (run_epochs env cfg [resume_epoch cfg .. e - 1] (run_start env cfg fs))"

definition after_train ::
  "('p, 'o, 'g, 's, 'x) env \<Rightarrow> config \<Rightarrow> (string \<rightharpoonup> ('p, 'o) stored) \<Rightarrow> int
     \<Rightarrow> ('p, 'o, 'g, 's) world" where
  "after_train env cfg fs e = final_world (run_phase env cfg e Train (epoch_start env cfg fs e))"

definition after_val ::
  "('p, 'o, 'g, 's, 'x) env \<Rightarrow> config \<Rightarrow> (string \<rightharpoonup> ('p, 'o) stored) \<Rightarrow> int
     \<Rightarrow> ('p, 'o, 'g, 's) world" where
  "after_val env cfg fs e = final_world (run_phase env cfg e Val (after_train env cfg fs e))"

definition after_checkpoint ::
  "('p, 'o, 'g, 's, 'x) env \<Rightarrow> config \<Rightarrow> (string \<rightharpoonup> ('p, 'o) stored) \<Rightarrow> int
     \<Rightarrow> ('p, 'o, 'g, 's) world" where
  "after_checkpoint env cfg fs e = final_world (checkpoint_step cfg e (after_val env cfg fs e))"

definition split_begin ::
  "('p, 'o, 'g, 's, 'x) env \<Rightarrow> config \<Rightarrow> (string \<rightharpoonup> ('p, 'o) stored) \<Rightarrow> int \<Rightarrow> data_split
     \<Rightarrow> ('p, 'o, 'g, 's) world" where
  "split_begin env cfg fs e s =
     (case s of
        TrainSplit \<Rightarrow> enter_phase env Train (epoch_start env cfg fs e)
      | ValSplit \<Rightarrow> (after_train env cfg fs e)\<lparr>training := False\<rparr>
      | TestSplit \<Rightarrow> (after_checkpoint env cfg fs e)\<lparr>training := False\<rparr>)"

definition split_mode :: "data_split \<Rightarrow> bool" where
  "split_mode s = (s = TrainSplit)"

definition split_params ::
  "('p, 'o, 'g, 's, 'x) env \<Rightarrow> config \<Rightarrow> (string \<rightharpoonup> ('p, 'o) stored) \<Rightarrow> int \<Rightarrow> data_split
     \<Rightarrow> 'p list" where
  "split_params env cfg fs e s =
     batch_params env (split_mode s) (split_batches env cfg s e) (split_begin env cfg fs e s)"

subsection \<open>The scalar log\<close>

text \<open>
  The values logged under a tag at an epoch; the five tags of a namespace and the five
  entries that carry the metrics of a split; an entry of a namespace (its tag starts
  with \<^verbatim>\<open>data/ns_\<close>); the epoch of an entry.
\<close>

definition logged :: "(string \<times> real \<times> int) list \<Rightarrow> string \<Rightarrow> int \<Rightarrow> real list" where
  "logged sc tag e = map (\<lambda>x. fst (snd x)) (filter (\<lambda>x. fst x = tag \<and> snd (snd x) = e) sc)"

definition metric_tags :: "string \<Rightarrow> string list" where
  "metric_tags ns =
     [''data/'' @ ns @ ''_loss_epoch'', ''data/'' @ ns @ ''_acc_epoch'',
      ''data/'' @ ns @ ''_auc_epoch'', ''data/'' @ ns @ ''_sensitivity_epoch'',
      ''data/'' @ ns @ ''_specificity_epoch'']"

definition metric_values :: "metrics \<Rightarrow> real list" where
  "metric_values m =
     [epoch_loss m, epoch_acc m, epoch_auc m, epoch_sensitivity m, epoch_specificity m]"

definition metric_entries :: "string \<Rightarrow> metrics \<Rightarrow> int \<Rightarrow> (string \<times> real \<times> int) list" where
  "metric_entries ns m e = map (\<lambda>(tag, v). (tag, v, e)) (zip (metric_tags ns) (metric_values m))"

definition in_namespace :: "string \<Rightarrow> string \<times> real \<times> int \<Rightarrow> bool" where
  "in_namespace ns x = (take (length ns + 6) (fst x) = ''data/'' @ ns @ ''_'')"

definition entry_epoch :: "string \<times> real \<times> int \<Rightarrow> int" where
  "entry_epoch x = snd (snd x)"

subsection \<open>Errors and contracts\<close>

text \<open>A list of true labels in which a single class is present.\<close>

definition single_class :: "int list \<Rightarrow> bool" where
  "single_class ys = (length (remdups ys) = 1)"

text \<open>The exception a computation ends in, if any.\<close>

fun failure :: "('a, 'w) outcome \<Rightarrow> error option" where
  "failure (Ok a w) = None"
| "failure (Fatal e w) = Some e"

text \<open>
  The contracts of the libraries that some statements need: the loader's shuffle keeps
  the number of samples, and a two-class network yields, for every clip, two class
  probabilities that sum to one.
\<close>

definition shuffle_keeps_length :: "('p, 'o, 'g, 's, 'x) env \<Rightarrow> bool" where
  "shuffle_keeps_length env = (\<forall>e xs. length (shuffle env e xs) = length xs)"

definition two_class_row :: "real list \<Rightarrow> bool" where
  "two_class_row r = (case r of [a, b] \<Rightarrow> a + b = 1 | _ \<Rightarrow> False)"

definition two_class_probs :: "('p, 'o, 'g, 's, 'x) env \<Rightarrow> bool" where
  "two_class_probs env =
     (\<forall>p t xs. list_all two_class_row (map (softmax env) (model_forward env p t xs)))"

text \<open>The same outcome with the final state changed by \<open>f\<close>.\<close>

fun map_world :: "('w \<Rightarrow> 'w) \<Rightarrow> ('a, 'w) outcome \<Rightarrow> ('a, 'w) outcome" where
  "map_world f (Ok a w) = Ok a (f w)"
| "map_world f (Fatal e w) = Fatal e (f w)"

text \<open>
  An environment whose validation split is the test split of \<open>env\<close>: on it the
  validation phase meets the samples that the test pass of \<open>env\<close> meets.
\<close>

definition test_as_val :: "('p, 'o, 'g, 's, 'x) env \<Rightarrow> ('p, 'o, 'g, 's, 'x) env" where
  "test_as_val env = env\<lparr>VideoDataset := (\<lambda>d split. VideoDataset env d ''test'')\<rparr>"

section \<open>A small instance\<close>

text \<open>
  A concrete environment on which the statements are evaluated. The network returns,
  for every clip, class probabilities computed from the clip alone by \<open>fwd\<close>; the
  loss is the share of clips whose most probable class is not their label; parameters,
  optimiser state and gradients are counters; floating-point operations are exact. A
  stored state fits when it is not negative.
\<close>

definition zero_one_loss :: "real list list \<Rightarrow> int list \<Rightarrow> real" where
  "zero_one_loss outs labels =
     real (length (filter (\<lambda>(r, l). int (argmax r) \<noteq> l) (zip outs labels)))
       / real (length labels)"

definition demo_env ::
  "('x \<Rightarrow> real list) \<Rightarrow> (string \<Rightarrow> string \<Rightarrow> ('x \<times> int) list) \<Rightarrow> (int, int, int, nat, 'x) env" where
  "demo_env fwd data =
     \<lparr>C3D = (\<lambda>n. 0), Adam = (\<lambda>p l. 0), CosineAnnealingLR = (\<lambda>opt. (0, opt)),
      grad_none = 0, fits_state_dict = (\<lambda>p sd. 0 \<le> sd), fits_opt_dict = (\<lambda>opt od. 0 \<le> od),
      VideoDataset = data, shuffle = (\<lambda>e xs. rev xs),
      model_forward = (\<lambda>p t xs. map fwd xs), softmax = (\<lambda>r. r),
      criterion = zero_one_loss, zero_grad = (\<lambda>g. 0),
      backward = (\<lambda>p xs ls g. g + 1), optimizer_step = (\<lambda>opt p g. (opt + 1, p + g)),
      scheduler_step = (\<lambda>s opt. (Suc s, opt)),
      float_add = (\<lambda>x y. x + y), float_mul = (\<lambda>x y. x * y), float_div = (\<lambda>x y. x / y)\<rparr>"

text \<open>Two-class probabilities from a score, and rows of probabilities given as they are.\<close>

definition two_rows :: "real \<Rightarrow> real list" where
  "two_rows q = [1 - q, q]"

definition given_rows :: "real list \<Rightarrow> real list" where
  "given_rows r = r"

text \<open>Five training clips (two batches), two validation clips and two test clips.\<close>

definition demo_data :: "string \<Rightarrow> string \<Rightarrow> (real \<times> int) list" where
  "demo_data d split =
     (if split = ''train'' then [(7 / 10, 1), (2 / 5, 0), (1 / 2, 1), (1 / 5, 0), (3 / 4, 1)]
      else if split = ''val'' then [(4 / 5, 1), (1 / 10, 0)]
      else [(3 / 5, 0), (9 / 10, 1)])"

text \<open>The same with a test split in which only the label 0 occurs.\<close>

definition one_class_test_data :: "string \<Rightarrow> string \<Rightarrow> (real \<times> int) list" where
  "one_class_test_data d split =
     (if split = ''test'' then [(3 / 5, 0), (1 / 10, 0)] else demo_data d split)"

text \<open>A three-class network on clips whose labels are 0 and 1.\<close>

definition three_class_data :: "string \<Rightarrow> string \<Rightarrow> (real list \<times> int) list" where
  "three_class_data d split =
     (if split = ''train'' then [([1 / 5, 7 / 10, 1 / 10], 1), ([3 / 5, 1 / 5, 1 / 5], 0)]
      else [([3 / 10, 3 / 10, 2 / 5], 0), ([1 / 10, 4 / 5, 1 / 10], 1)])"

definition demo :: "(int, int, int, nat, real) env" where
  "demo = demo_env two_rows demo_data"

definition demo_one_class_test :: "(int, int, int, nat, real) env" where
  "demo_one_class_test = demo_env two_rows one_class_test_data"

definition demo_three_class :: "(int, int, int, nat, real list) env" where
  "demo_three_class = demo_env given_rows three_class_data"

text \<open>Two epochs from scratch, a checkpoint and a test pass at every epoch.\<close>

definition demo_cfg :: config where
  "demo_cfg =
     \<lparr>dataset = ''hmdb51'', save_dir = ''run/run_0'', num_classes = 2, lr = 1 / 10000,
      num_epochs = 2, save_epoch = 1, useTest = True, test_interval = 1, resume_epoch = 0\<rparr>"

definition demo_world :: "(int, int, int, nat) world" where
  "demo_world = initial_world demo demo_cfg Map.empty"

section \<open>Properties\<close>

subsection \<open>Decimal numerals and paths\<close>

declare str_nat.simps [simp del]

lemma digit_val_digit_char: "d < 10 \<Longrightarrow> digit_val (digit_char d) = d"
  by (simp add: digit_val_def digit_char_def)

lemma val_nat_snoc: "val_nat (s @ [c]) = 10 * val_nat s + digit_val c"
  by (simp add: val_nat_def)

lemma val_nat_str_nat: "val_nat (str_nat n) = n"
proof (induction n rule: str_nat.induct)
  case (1 n)
  show ?case
  proof (cases "n < 10")
    case True
    then show ?thesis
      by (subst str_nat.simps) (simp add: val_nat_def digit_val_digit_char)
  next
    case False
    then have "val_nat (str_nat n)
        = 10 * val_nat (str_nat (n div 10)) + digit_val (digit_char (n mod 10))"
      by (subst str_nat.simps) (simp add: val_nat_snoc)
    also have "\<dots> = 10 * (n div 10) + n mod 10"
      using False 1 by (simp add: digit_val_digit_char)
    finally show ?thesis by simp
  qed
qed

lemma str_nat_inj: "str_nat m = str_nat n \<Longrightarrow> m = n"
  by (metis val_nat_str_nat)

lemma str_nat_chars: "c \<in> set (str_nat n) \<Longrightarrow> 48 \<le> (of_char c :: nat)"
proof (induction n rule: str_nat.induct)
  case (1 n)
  show ?case
  proof (cases "n < 10")
    case True
    with 1(2) show ?thesis
      by (subst (asm) str_nat.simps) (simp add: digit_char_def)
  next
    case False
    with 1 show ?thesis
      by (subst (asm) (2) str_nat.simps) (auto simp add: digit_char_def)
  qed
qed

lemma str_nat_not_Nil: "str_nat n \<noteq> []"
  by (subst str_nat.simps) simp

lemma str_nat_no_minus: "str_nat n \<noteq> CHR ''-'' # s"
proof
  assume "str_nat n = CHR ''-'' # s"
  then have "CHR ''-'' \<in> set (str_nat n)" by simp
  then have "48 \<le> (of_char CHR ''-'' :: nat)" by (rule str_nat_chars)
  then show False by simp
qed

lemma str_int_inj: "str_int i = str_int j \<Longrightarrow> i = j"
  using str_nat_no_minus [of "nat i" "str_nat (nat (- j))"]
        str_nat_no_minus [of "nat j" "str_nat (nat (- i))"]
  by (auto simp add: str_int_def split: if_splits dest!: str_nat_inj)

lemma path_join_relative:
  "\<not> (b \<noteq> [] \<and> hd b = CHR ''/'') \<Longrightarrow> path_join a b = path_prefix a @ b"
  by (auto simp add: path_join_def path_prefix_def)

lemma last_path_join: "b \<noteq> [] \<Longrightarrow> last (path_join a b) = last b"
  by (simp add: path_join_def)

text \<open>The paths the code builds are the paths spelled out above.\<close>

lemma ckpt_path_file: "ckpt_path cfg e = ckpt_file cfg e"
  by (simp add: ckpt_path_def ckpt_file_def models_dir_def ckpt_name_def saveName_def
        modelName_def module_dataset_def)

lemma csv_name_file: "path_join (predictions_dir cfg) (csv_name ns e) = dump_file cfg ns e"
  by (simp add: dump_file_def predictions_dir_def csv_name_def)

lemma ckpt_file_eq:
  "ckpt_file cfg e
     = path_prefix (path_join (save_dir cfg) ''models'')
         @ ''C3D-hmdb51_epoch-'' @ str_int e @ ''.pth.tar''"
  unfolding ckpt_file_def by (rule path_join_relative) simp

lemma ckpt_file_inj: "ckpt_file cfg e = ckpt_file cfg e' \<Longrightarrow> e = e'"
  by (simp add: ckpt_file_eq str_int_inj)

lemma ckpt_file_last: "last (ckpt_file cfg e) = CHR ''r''"
  by (simp add: ckpt_file_def last_path_join)

lemma dump_file_last: "last (dump_file cfg ns e) = CHR ''v''"
  by (simp add: dump_file_def last_path_join)

lemma ckpt_file_neq_dump_file: "ckpt_file cfg e \<noteq> dump_file cfg ns e'"
proof
  assume "ckpt_file cfg e = dump_file cfg ns e'"
  then have "last (ckpt_file cfg e) = last (dump_file cfg ns e')" by simp
  then show False by (simp add: ckpt_file_last dump_file_last)
qed

lemma dump_file_eq:
  "dump_file cfg (split_name s) e
     = path_prefix (path_join (save_dir cfg) ''predictions'')
         @ split_name s @ ''_epoch_'' @ str_int e @ ''.csv''"
  unfolding dump_file_def by (rule path_join_relative) (cases s; simp)

lemma dump_file_inj:
  assumes "dump_file cfg (split_name s) e = dump_file cfg (split_name s') e'"
  shows "s = s' \<and> e = e'"
proof -
  from assms have "split_name s @ ''_epoch_'' @ str_int e @ ''.csv''
      = split_name s' @ ''_epoch_'' @ str_int e' @ ''.csv''"
    by (simp add: dump_file_eq)
  then show ?thesis by (cases s; cases s'; auto dest: str_int_inj)
qed

lemma phase_split_name:
  "phase_name Train = split_name TrainSplit" "phase_name Val = split_name ValSplit"
  "''test'' = split_name TestSplit"
  by simp_all

subsection \<open>The batch loops\<close>

lemma column1_length: "column1 rs = Some c \<Longrightarrow> length c = length rs"
  by (induction rs arbitrary: c) (auto split: list.splits option.splits)

lemma column1_nth: "column1 rs = Some c \<Longrightarrow> c = map (\<lambda>r. r ! 1) rs"
  by (induction rs arbitrary: c) (auto split: list.splits option.splits)

lemma next_world_frame:
  "files (next_world env t b w) = files w"
  "scalars (next_world env t b w) = scalars w"
  "sched (next_world env t b w) = sched w"
  "training (next_world env t b w) = training w"
  by (simp_all add: next_world_def train_step_def Let_def split: prod.splits)

lemma next_world_eval: "next_world env False b w = w\<lparr>grads := zero_grad env (grads w)\<rparr>"
  by (simp add: next_world_def)

lemma process_batch_unfold:
  "process_batch env t b acc w =
     (if [] \<in> set (batch_probs env (params w) (training w) b)
      then Fatal IndexError (next_world env False b w)
      else if length (model_forward env (params w) (training w) (map fst b)) \<noteq> length b
      then Fatal ValueError (next_world env False b w)
      else case accumulate env (batch_loss env (params w) (training w) b) (length b)
                  (map argmax (batch_probs env (params w) (training w) b)) (map snd b)
                  (batch_probs env (params w) (training w) b) acc of
             None \<Rightarrow> Fatal IndexError (next_world env t b w)
           | Some acc' \<Rightarrow> Ok acc' (next_world env t b w))"
  unfolding process_batch_def Let_def next_world_def batch_probs_def batch_loss_def
  by simp

lemma process_batch_final:
  "final_world (process_batch env t b acc w) = next_world env t b w
     \<or> final_world (process_batch env t b acc w) = next_world env False b w"
  by (simp add: process_batch_unfold split: option.splits)

lemma process_batch_frame:
  "files (final_world (process_batch env t b acc w)) = files w"
  "scalars (final_world (process_batch env t b acc w)) = scalars w"
  "sched (final_world (process_batch env t b acc w)) = sched w"
  "training (final_world (process_batch env t b acc w)) = training w"
  using process_batch_final [of env t b acc w] by (auto simp add: next_world_frame)

lemma process_batch_eval:
  "final_world (process_batch env False b acc w) = w\<lparr>grads := zero_grad env (grads w)\<rparr>"
  using process_batch_final [of env False b acc w] by (auto simp add: next_world_eval)

lemma process_batch_Ok:
  assumes "process_batch env t b acc w = Ok acc' w'"
  shows "w' = next_world env t b w"
    and "accumulate env (batch_loss env (params w) (training w) b) (length b)
           (map argmax (batch_probs env (params w) (training w) b)) (map snd b)
           (batch_probs env (params w) (training w) b) acc = Some acc'"
    and "length (batch_probs env (params w) (training w) b) = length b"
    and "[] \<notin> set (batch_probs env (params w) (training w) b)"
proof -
  let ?P = "batch_probs env (params w) (training w) b"
  from assms have a: "[] \<notin> set ?P"
    by (auto simp add: process_batch_unfold split: if_splits)
  from assms a have l: "length (model_forward env (params w) (training w) (map fst b)) = length b"
    by (auto simp add: process_batch_unfold split: if_splits)
  from assms a l show "w' = next_world env t b w"
    by (auto simp add: process_batch_unfold split: option.splits)
  from assms a l show "accumulate env (batch_loss env (params w) (training w) b) (length b)
           (map argmax ?P) (map snd b) ?P acc = Some acc'"
    by (auto simp add: process_batch_unfold split: option.splits)
  from l show "length ?P = length b" by (simp add: batch_probs_def)
  from a show "[] \<notin> set ?P" .
qed

lemma accumulate_Some:
  assumes "accumulate env loss n preds labels probs acc = Some acc'"
  shows "\<exists>p1. column1 probs = Some p1
          \<and> running_loss acc' = float_add env (running_loss acc) (float_mul env loss (real n))
          \<and> running_corrects acc' = running_corrects acc + count_equal preds labels
          \<and> running_probs acc' = running_probs acc @ p1
          \<and> running_labels acc' = running_labels acc @ labels"
  using assms by (auto simp add: accumulate_def split: option.splits)

lemma process_batch_acc:
  assumes "process_batch env t b acc w = Ok acc' w'"
  shows "running_loss acc'
           = float_add env (running_loss acc)
               (float_mul env (batch_loss env (params w) (training w) b) (real (length b)))"
    and "running_corrects acc' = running_corrects acc
           + count_equal (map argmax (batch_probs env (params w) (training w) b)) (map snd b)"
    and "running_probs acc' = running_probs acc @ positive_probs env (params w) (training w) b"
    and "running_labels acc' = running_labels acc @ map snd b"
    and "column1 (batch_probs env (params w) (training w) b)
           = Some (positive_probs env (params w) (training w) b)"
    and "length (positive_probs env (params w) (training w) b) = length b"
proof -
  from accumulate_Some [OF process_batch_Ok(2) [OF assms]] obtain p1 where
    c: "column1 (batch_probs env (params w) (training w) b) = Some p1"
    and r: "running_loss acc'
           = float_add env (running_loss acc)
               (float_mul env (batch_loss env (params w) (training w) b) (real (length b)))"
      "running_corrects acc' = running_corrects acc
           + count_equal (map argmax (batch_probs env (params w) (training w) b)) (map snd b)"
      "running_probs acc' = running_probs acc @ p1"
      "running_labels acc' = running_labels acc @ map snd b"
    by blast
  have p: "positive_probs env (params w) (training w) b = p1"
    unfolding positive_probs_def by (rule column1_nth [OF c, symmetric])
  show "running_loss acc'
           = float_add env (running_loss acc)
               (float_mul env (batch_loss env (params w) (training w) b) (real (length b)))"
    by (rule r(1))
  show "running_corrects acc' = running_corrects acc
           + count_equal (map argmax (batch_probs env (params w) (training w) b)) (map snd b)"
    by (rule r(2))
  show "running_probs acc' = running_probs acc @ positive_probs env (params w) (training w) b"
    by (simp add: r(3) p)
  show "running_labels acc' = running_labels acc @ map snd b" by (rule r(4))
  show "column1 (batch_probs env (params w) (training w) b)
           = Some (positive_probs env (params w) (training w) b)"
    by (simp add: c p)
  from column1_length [OF c] process_batch_Ok(3) [OF assms]
  show "length (positive_probs env (params w) (training w) b) = length b"
    by (simp add: p)
qed

lemma run_batches_frame:
  "files (final_world (run_batches env t bs acc w)) = files w
   \<and> scalars (final_world (run_batches env t bs acc w)) = scalars w
   \<and> sched (final_world (run_batches env t bs acc w)) = sched w
   \<and> training (final_world (run_batches env t bs acc w)) = training w"
proof (induction bs arbitrary: acc w)
  case Nil
  show ?case by simp
next
  case (Cons b bs)
  show ?case
  proof (cases "process_batch env t b acc w")
    case (Ok acc' w')
    with process_batch_frame [of env t b acc w] Cons [of acc' w'] show ?thesis by simp
  next
    case (Fatal e w')
    with process_batch_frame [of env t b acc w] show ?thesis by simp
  qed
qed

lemma run_batches_eval:
  "params (final_world (run_batches env False bs acc w)) = params w
   \<and> opt_state (final_world (run_batches env False bs acc w)) = opt_state w"
proof (induction bs arbitrary: acc w)
  case Nil
  show ?case by simp
next
  case (Cons b bs)
  show ?case
  proof (cases "process_batch env False b acc w")
    case (Ok acc' w')
    with process_batch_eval [of env b acc w] Cons [of acc' w'] show ?thesis by simp
  next
    case (Fatal e w')
    with process_batch_eval [of env b acc w] show ?thesis by simp
  qed
qed

text \<open>The running sum of the loss, started from any value.\<close>

lemma observed_probs_Cons:
  "observed_probs env t (p # ps) (b # bs) = positive_probs env p t b @ observed_probs env t ps bs"
  by (simp add: observed_probs_def)

lemma sample_rows_Cons:
  "sample_rows env t (p # ps) (b # bs) = batch_rows env p t b @ sample_rows env t ps bs"
  by (simp add: sample_rows_def)

lemma argmax_hits_Cons:
  "argmax_hits env t (p # ps) (b # bs)
     = count_equal (map argmax (batch_probs env p t b)) (map snd b) + argmax_hits env t ps bs"
  by (simp add: argmax_hits_def)

lemma run_batches_Cons_Ok:
  assumes "run_batches env t (b # bs) acc w = Ok acc' w'"
  obtains a v where "process_batch env t b acc w = Ok a v" "run_batches env t bs a v = Ok acc' w'"
  using assms by (cases "process_batch env t b acc w") simp_all

lemma run_batches_Ok:
  assumes "run_batches env t bs acc w = Ok acc' w'"
  shows "running_labels acc' = running_labels acc @ map snd (concat bs)
       \<and> running_probs acc'
           = running_probs acc @ observed_probs env (training w) (batch_params env t bs w) bs
       \<and> running_loss acc'
           = foldl (\<lambda>s (p, b). float_add env s
                      (float_mul env (batch_loss env p (training w) b) (real (length b))))
               (running_loss acc) (zip (batch_params env t bs w) bs)
       \<and> running_corrects acc'
           = running_corrects acc + argmax_hits env (training w) (batch_params env t bs w) bs
       \<and> length (observed_probs env (training w) (batch_params env t bs w) bs)
           = length (concat bs)"
  using assms
proof (induction bs arbitrary: acc w)
  case Nil
  then show ?case by (simp add: observed_probs_def argmax_hits_def)
next
  case (Cons b bs)
  from Cons.prems obtain a v where
    pb: "process_batch env t b acc w = Ok a v" and rest: "run_batches env t bs a v = Ok acc' w'"
    by (rule run_batches_Cons_Ok)
  note one = process_batch_acc [OF pb]
  have v: "v = next_world env t b w" by (rule process_batch_Ok(1) [OF pb])
  have tr: "training v = training w" by (simp add: v next_world_frame)
  have bp: "batch_params env t (b # bs) w = params w # batch_params env t bs v"
    by (simp add: v)
  from Cons.IH [OF rest] show ?case
    unfolding bp observed_probs_Cons argmax_hits_Cons tr
    by (simp add: one(1) one(2) one(3) one(4) one(6))
qed

lemma batch_rows_length: "length (batch_rows env p t b) = min (length b) (length (batch_probs env p t b))"
  by (simp add: batch_rows_def positive_probs_def)

lemma run_batches_rows:
  assumes "run_batches env t bs acc w = Ok acc' w'"
    and "length (running_labels acc) = length (running_probs acc)"
  shows "map (\<lambda>(l, q). [Num l, Flt q]) (zip (running_labels acc') (running_probs acc'))
           = map (\<lambda>(l, q). [Num l, Flt q]) (zip (running_labels acc) (running_probs acc))
               @ sample_rows env (training w) (batch_params env t bs w) bs
       \<and> length (running_labels acc') = length (running_probs acc')
       \<and> length (sample_rows env (training w) (batch_params env t bs w) bs) = length (concat bs)
       \<and> map hd (sample_rows env (training w) (batch_params env t bs w) bs)
           = map (\<lambda>x. Num (snd x)) (concat bs)"
  using assms
proof (induction bs arbitrary: acc w)
  case Nil
  then show ?case by (simp add: sample_rows_def)
next
  case (Cons b bs)
  from Cons.prems(1) obtain a v where
    pb: "process_batch env t b acc w = Ok a v" and rest: "run_batches env t bs a v = Ok acc' w'"
    by (rule run_batches_Cons_Ok)
  note one = process_batch_acc [OF pb]
  have v: "v = next_world env t b w" by (rule process_batch_Ok(1) [OF pb])
  have tr: "training v = training w" by (simp add: v next_world_frame)
  have bp: "batch_params env t (b # bs) w = params w # batch_params env t bs v"
    by (simp add: v)
  have la: "length (running_labels a) = length (running_probs a)"
    by (simp add: one(3) one(4) one(6) Cons.prems(2))
  have za: "map (\<lambda>(l, q). [Num l, Flt q]) (zip (running_labels a) (running_probs a))
      = map (\<lambda>(l, q). [Num l, Flt q]) (zip (running_labels acc) (running_probs acc))
          @ batch_rows env (params w) (training w) b"
    by (simp add: one(3) one(4) Cons.prems(2) batch_rows_def)
  have lb: "length (batch_rows env (params w) (training w) b) = length b"
    by (simp add: batch_rows_def one(6))
  have hb: "map hd (batch_rows env (params w) (training w) b) = map (\<lambda>x. Num (snd x)) b"
    using one(6) by (simp add: batch_rows_def list_eq_iff_nth_eq)
  from Cons.IH [OF rest la] show ?case
    unfolding bp sample_rows_Cons tr by (simp add: za lb hb)
qed

subsection \<open>The test loop\<close>

lemma test_batch_unfold:
  "test_batch env b acc w =
     (if [] \<in> set (batch_probs env (params w) (training w) b) then Fatal IndexError w
      else if length (model_forward env (params w) (training w) (map fst b)) \<noteq> length b
      then Fatal ValueError w
      else case accumulate env (batch_loss env (params w) (training w) b) (length b)
                  (map argmax (batch_probs env (params w) (training w) b)) (map snd b)
                  (batch_probs env (params w) (training w) b) acc of
             None \<Rightarrow> Fatal IndexError w
           | Some acc' \<Rightarrow> Ok acc' w)"
  unfolding test_batch_def Let_def batch_probs_def batch_loss_def
  by simp

lemma process_batch_test_batch:
  "process_batch env False b acc (w\<lparr>grads := g\<rparr>)
     = map_world (\<lambda>v. v\<lparr>grads := zero_grad env g\<rparr>) (test_batch env b acc w)"
  by (simp add: process_batch_unfold test_batch_unfold next_world_eval split: option.splits)

lemma test_batch_world: "final_world (test_batch env b acc w) = w"
  by (simp add: test_batch_unfold split: option.splits)

lemma run_test_batches_world: "final_world (run_test_batches env bs acc w) = w"
proof (induction bs arbitrary: acc)
  case Nil
  show ?case by simp
next
  case (Cons b bs)
  show ?case
  proof (cases "test_batch env b acc w")
    case (Ok a v)
    with test_batch_world [of env b acc w] Cons [of a] show ?thesis by simp
  next
    case (Fatal e v)
    with test_batch_world [of env b acc w] show ?thesis by simp
  qed
qed

lemma run_batches_test_batches:
  "\<exists>g'. run_batches env False bs acc (w\<lparr>grads := g\<rparr>)
          = map_world (\<lambda>v. v\<lparr>grads := g'\<rparr>) (run_test_batches env bs acc w)"
proof (induction bs arbitrary: acc g)
  case Nil
  show ?case by (rule exI [of _ g]) simp
next
  case (Cons b bs)
  show ?case
  proof (cases "test_batch env b acc w")
    case (Ok a v)
    with test_batch_world [of env b acc w] have tb: "test_batch env b acc w = Ok a w" by simp
    from Cons [of a "zero_grad env g"] obtain g' where
      "run_batches env False bs a (w\<lparr>grads := zero_grad env g\<rparr>)
         = map_world (\<lambda>v. v\<lparr>grads := g'\<rparr>) (run_test_batches env bs a w)" by blast
    then show ?thesis
      by (intro exI [of _ g']) (simp add: process_batch_test_batch tb)
  next
    case (Fatal e v)
    then show ?thesis
      by (intro exI [of _ "zero_grad env g"]) (simp add: process_batch_test_batch)
  qed
qed

lemma batch_params_eval: "batch_params env False bs w = replicate (length bs) (params w)"
  by (induction bs arbitrary: w) (simp_all add: next_world_eval)

lemma run_test_batches_Ok:
  assumes "run_test_batches env bs acc w = Ok acc' w'"
  shows "w' = w"
    and "\<exists>v. run_batches env False bs acc w = Ok acc' v"
proof -
  from run_test_batches_world [of env bs acc w] assms show "w' = w" by simp
  from run_batches_test_batches [where env = env and bs = bs and acc = acc and w = w and g = "grads w"] assms
  show "\<exists>v. run_batches env False bs acc w = Ok acc' v" by auto
qed

subsection \<open>The end of a split\<close>

lemma save_to_csv_fields:
  "files (save_to_csv e ns ls ps (predictions_dir cfg) w)
     = (files w)(dump_file cfg ns e \<mapsto> Csv (csv_rows ls ps))"
  "scalars (save_to_csv e ns ls ps d w) = scalars w"
  "params (save_to_csv e ns ls ps d w) = params w"
  "opt_state (save_to_csv e ns ls ps d w) = opt_state w"
  "sched (save_to_csv e ns ls ps d w) = sched w"
  "grads (save_to_csv e ns ls ps d w) = grads w"
  "training (save_to_csv e ns ls ps d w) = training w"
  by (simp_all add: save_to_csv_def csv_name_file Let_def)

lemma log_metrics_fields:
  "scalars (log_metrics ns m e w) = scalars w @ metric_entries ns m e"
  "files (log_metrics ns m e w) = files w"
  "params (log_metrics ns m e w) = params w"
  "opt_state (log_metrics ns m e w) = opt_state w"
  "sched (log_metrics ns m e w) = sched w"
  "grads (log_metrics ns m e w) = grads w"
  "training (log_metrics ns m e w) = training w"
  by (simp_all add: log_metrics_def add_scalar_def metric_entries_def metric_tags_def
        metric_values_def)

lemma metric_entries_fields:
  "map fst (metric_entries ns m e) = metric_tags ns"
  "map snd (metric_entries ns m e) = map (\<lambda>v. (v, e)) (metric_values m)"
  "length (metric_entries ns m e) = 5"
  by (simp_all add: metric_entries_def metric_tags_def metric_values_def)

lemma finish_split_Inl:
  "epoch_metrics env nb n acc = Inl e \<Longrightarrow> finish_split env cfg epoch ns nb n acc w = Fatal e w"
  by (simp add: finish_split_def)

lemma finish_split_Inr:
  "epoch_metrics env nb n acc = Inr m \<Longrightarrow>
     finish_split env cfg epoch ns nb n acc w
       = Ok () (log_metrics ns m epoch
                 (save_to_csv epoch ns (running_labels acc) (running_probs acc)
                    (predictions_dir cfg) w))"
  by (simp add: finish_split_def)

lemma finish_split_frame:
  "params (final_world (finish_split env cfg epoch ns nb n acc w)) = params w"
  "opt_state (final_world (finish_split env cfg epoch ns nb n acc w)) = opt_state w"
  "sched (final_world (finish_split env cfg epoch ns nb n acc w)) = sched w"
  "grads (final_world (finish_split env cfg epoch ns nb n acc w)) = grads w"
  "training (final_world (finish_split env cfg epoch ns nb n acc w)) = training w"
  by (cases "epoch_metrics env nb n acc";
      simp add: finish_split_Inl finish_split_Inr log_metrics_fields save_to_csv_fields)+

lemma finish_split_files:
  "q \<noteq> dump_file cfg ns epoch \<Longrightarrow>
     files (final_world (finish_split env cfg epoch ns nb n acc w)) q = files w q"
  by (cases "epoch_metrics env nb n acc")
     (simp_all add: finish_split_Inl finish_split_Inr log_metrics_fields save_to_csv_fields)

subsection \<open>Phases and the test pass\<close>

lemma run_phase_Fatal:
  "run_batches env (ph = Train) (trainval_loader env cfg ph epoch) acc0 (enter_phase env ph w)
     = Fatal e w' \<Longrightarrow> run_phase env cfg epoch ph w = Fatal e w'"
  by (simp add: run_phase_def Let_def)

lemma run_phase_Ok:
  "run_batches env (ph = Train) (trainval_loader env cfg ph epoch) acc0 (enter_phase env ph w)
     = Ok acc w' \<Longrightarrow>
   run_phase env cfg epoch ph w
     = finish_split env cfg epoch (phase_name ph) (length (trainval_loader env cfg ph epoch))
         (trainval_sizes env cfg ph) acc w'"
  by (simp add: run_phase_def Let_def)

lemma test_pass_Fatal:
  "run_test_batches env (test_loader env cfg) acc0 (w\<lparr>training := False\<rparr>) = Fatal e w'
     \<Longrightarrow> test_pass env cfg epoch w = Fatal e w'"
  by (simp add: test_pass_def Let_def)

lemma test_pass_Ok:
  "run_test_batches env (test_loader env cfg) acc0 (w\<lparr>training := False\<rparr>) = Ok acc w'
     \<Longrightarrow> test_pass env cfg epoch w
       = finish_split env cfg epoch ''test'' (length (test_loader env cfg)) (test_size env cfg)
           acc w'"
  by (simp add: test_pass_def Let_def)

lemma run_phase_Val_trainable:
  "params (final_world (run_phase env cfg epoch Val w)) = params w
   \<and> opt_state (final_world (run_phase env cfg epoch Val w)) = opt_state w"
proof -
  let ?w = "enter_phase env Val w"
  let ?r = "run_batches env (Val = Train) (trainval_loader env cfg Val epoch) acc0 ?w"
  have e: "params ?w = params w" "opt_state ?w = opt_state w"
    by (simp_all add: enter_phase_def)
  have r: "params (final_world ?r) = params w" "opt_state (final_world ?r) = opt_state w"
    using run_batches_eval [of env "trainval_loader env cfg Val epoch" acc0 ?w] e by simp_all
  show ?thesis
  proof (cases ?r)
    case (Ok acc w')
    with r run_phase_Ok [OF Ok] show ?thesis by (simp add: finish_split_frame)
  next
    case (Fatal err w')
    with r run_phase_Fatal [OF Fatal] show ?thesis by simp
  qed
qed

lemma test_pass_frame:
  "params (final_world (test_pass env cfg epoch w)) = params w
   \<and> opt_state (final_world (test_pass env cfg epoch w)) = opt_state w
   \<and> sched (final_world (test_pass env cfg epoch w)) = sched w
   \<and> grads (final_world (test_pass env cfg epoch w)) = grads w
   \<and> \<not> training (final_world (test_pass env cfg epoch w))"
proof -
  let ?w = "w\<lparr>training := False\<rparr>"
  let ?r = "run_test_batches env (test_loader env cfg) acc0 ?w"
  have r: "final_world ?r = ?w" by (rule run_test_batches_world)
  show ?thesis
  proof (cases ?r)
    case (Ok acc w')
    with r test_pass_Ok [OF Ok] show ?thesis by (simp add: finish_split_frame)
  next
    case (Fatal err w')
    with r test_pass_Fatal [OF Fatal] show ?thesis by simp
  qed
qed

lemma test_pass_files:
  assumes "q \<noteq> dump_file cfg ''test'' epoch"
  shows "files (final_world (test_pass env cfg epoch w)) q = files w q"
proof -
  let ?w = "w\<lparr>training := False\<rparr>"
  let ?r = "run_test_batches env (test_loader env cfg) acc0 ?w"
  have r: "final_world ?r = ?w" by (rule run_test_batches_world)
  show ?thesis
  proof (cases ?r)
    case (Ok acc w')
    with r test_pass_Ok [OF Ok] assms show ?thesis by (simp add: finish_split_files)
  next
    case (Fatal err w')
    with r test_pass_Fatal [OF Fatal] show ?thesis by simp
  qed
qed

subsection \<open>What the evaluation loops do not call\<close>

declare batches_of.simps [simp del]

lemma process_batch_eval_env:
  "process_batch (env\<lparr>backward := bw, optimizer_step := st\<rparr>) False b acc w
     = process_batch env False b acc w"
  by (simp add: process_batch_def accumulate_def Let_def split: option.splits)

lemma run_batches_eval_env:
  "run_batches (env\<lparr>backward := bw, optimizer_step := st\<rparr>) False bs acc w
     = run_batches env False bs acc w"
  by (induction bs arbitrary: acc w) (simp_all add: process_batch_eval_env split: outcome.splits)

lemma loaders_env:
  "trainval_loader (env\<lparr>backward := bw, optimizer_step := st\<rparr>) cfg ph epoch
     = trainval_loader env cfg ph epoch"
  "trainval_sizes (env\<lparr>backward := bw, optimizer_step := st\<rparr>) cfg ph
     = trainval_sizes env cfg ph"
  "enter_phase (env\<lparr>backward := bw, optimizer_step := st\<rparr>) ph w = enter_phase env ph w"
  by (simp_all add: trainval_loader_def trainval_sizes_def enter_phase_def split: phase.splits)

lemma finish_split_env:
  "float_div env' = float_div env \<Longrightarrow>
     finish_split env' cfg epoch ns nb n acc w = finish_split env cfg epoch ns nb n acc w"
  by (simp add: finish_split_def epoch_metrics_def py_div_def)

lemma run_phase_Val_env:
  "run_phase (env\<lparr>backward := bw, optimizer_step := st\<rparr>) cfg epoch Val w
     = run_phase env cfg epoch Val w"
proof -
  have f: "finish_split (env\<lparr>backward := bw, optimizer_step := st\<rparr>) cfg epoch ns nb n acc v
      = finish_split env cfg epoch ns nb n acc v" for ns nb n acc v
    by (rule finish_split_env) simp
  show ?thesis
    unfolding run_phase_def loaders_env f by (simp add: run_batches_eval_env)
qed

lemma test_batch_env:
  "test_batch (env\<lparr>zero_grad := zg, backward := bw, optimizer_step := st, scheduler_step := ss\<rparr>)
      b acc w
     = test_batch env b acc w"
  by (simp add: test_batch_def accumulate_def Let_def split: option.splits)

lemma run_test_batches_env:
  "run_test_batches
      (env\<lparr>zero_grad := zg, backward := bw, optimizer_step := st, scheduler_step := ss\<rparr>) bs acc w
     = run_test_batches env bs acc w"
  by (induction bs arbitrary: acc w) (simp_all add: test_batch_env split: outcome.splits)

lemma test_pass_env:
  "test_pass (env\<lparr>zero_grad := zg, backward := bw, optimizer_step := st, scheduler_step := ss\<rparr>)
      cfg epoch w
     = test_pass env cfg epoch w"
proof -
  have h: "test_loader (env\<lparr>zero_grad := zg, backward := bw, optimizer_step := st,
            scheduler_step := ss\<rparr>) cfg = test_loader env cfg"
    "test_size (env\<lparr>zero_grad := zg, backward := bw, optimizer_step := st,
            scheduler_step := ss\<rparr>) cfg = test_size env cfg"
    by (simp_all add: test_loader_def test_size_def)
  have f: "finish_split (env\<lparr>zero_grad := zg, backward := bw, optimizer_step := st,
            scheduler_step := ss\<rparr>) cfg epoch ns nb n acc v
      = finish_split env cfg epoch ns nb n acc v" for ns nb n acc v
    by (rule finish_split_env) simp
  show ?thesis
    unfolding test_pass_def h f run_test_batches_env by (rule refl)
qed

subsection \<open>The test pass and the validation phase on the same samples\<close>

lemma test_as_val_loader:
  "trainval_loader (test_as_val env) cfg Val epoch = test_loader env cfg"
  "trainval_sizes (test_as_val env) cfg Val = test_size env cfg"
  "enter_phase (test_as_val env) Val w = w\<lparr>training := False\<rparr>"
  by (simp_all add: test_as_val_def trainval_loader_def trainval_sizes_def test_loader_def
        test_size_def enter_phase_def)

lemma test_as_val_batches:
  "run_batches (test_as_val env) t bs acc w = run_batches env t bs acc w"
proof (induction bs arbitrary: acc w)
  case Nil
  show ?case by simp
next
  case (Cons b bs)
  have "process_batch (test_as_val env) t b acc w = process_batch env t b acc w"
    by (simp add: process_batch_def accumulate_def train_step_def test_as_val_def Let_def
          split: option.splits)
  with Cons show ?case by (simp split: outcome.splits)
qed

text \<open>
  The three ways a test pass can end, with the end of the validation phase on the same
  samples beside it: in the batch loop, in the metrics, or normally. \<open>g\<close> is the
  gradient buffer as the validation loop leaves it.
\<close>

lemma test_pass_cases:
  obtains
    (loop) err g where
      "test_pass env cfg epoch w = Fatal err (w\<lparr>training := False\<rparr>)"
      "run_phase (test_as_val env) cfg epoch Val w = Fatal err (w\<lparr>training := False, grads := g\<rparr>)"
  | (metric) err g where
      "test_pass env cfg epoch w = Fatal err (w\<lparr>training := False\<rparr>)"
      "run_phase (test_as_val env) cfg epoch Val w = Fatal err (w\<lparr>training := False, grads := g\<rparr>)"
  | (finished) acc m g where
      "run_test_batches env (test_loader env cfg) acc0 (w\<lparr>training := False\<rparr>)
         = Ok acc (w\<lparr>training := False\<rparr>)"
      "epoch_metrics env (length (test_loader env cfg)) (test_size env cfg) acc = Inr m"
      "test_pass env cfg epoch w
         = Ok () (log_metrics ''test'' m epoch
                   (save_to_csv epoch ''test'' (running_labels acc) (running_probs acc)
                      (predictions_dir cfg) (w\<lparr>training := False\<rparr>)))"
      "run_phase (test_as_val env) cfg epoch Val w
         = Ok () (log_metrics ''val'' m epoch
                   (save_to_csv epoch ''val'' (running_labels acc) (running_probs acc)
                      (predictions_dir cfg) (w\<lparr>training := False, grads := g\<rparr>)))"
proof -
  let ?w = "w\<lparr>training := False\<rparr>"
  let ?bs = "test_loader env cfg"
  let ?r = "run_test_batches env ?bs acc0 ?w"
  from run_batches_test_batches [where env = env and bs = ?bs and acc = acc0 and w = ?w
      and g = "grads w"]
  obtain g where g: "run_batches env False ?bs acc0 ?w = map_world (\<lambda>v. v\<lparr>grads := g\<rparr>) ?r"
    by auto
  have fs: "finish_split (test_as_val env) cfg epoch ns nb n acc v
      = finish_split env cfg epoch ns nb n acc v" for ns nb n acc v
    by (rule finish_split_env) (simp add: test_as_val_def)
  have vp: "run_phase (test_as_val env) cfg epoch Val w
      = (case map_world (\<lambda>v. v\<lparr>grads := g\<rparr>) ?r of
           Fatal e w' \<Rightarrow> Fatal e w'
         | Ok acc w' \<Rightarrow>
             finish_split env cfg epoch ''val'' (length ?bs) (test_size env cfg) acc w')"
    unfolding run_phase_def test_as_val_loader test_as_val_batches fs Let_def
    by (simp add: g split: outcome.splits)
  have r: "final_world ?r = ?w" by (rule run_test_batches_world)
  show ?thesis
  proof (cases ?r)
    case (Fatal err v)
    with r have v: "v = ?w" by simp
    from Fatal have "test_pass env cfg epoch w = Fatal err ?w"
      unfolding v by (rule test_pass_Fatal)
    moreover from Fatal have "run_phase (test_as_val env) cfg epoch Val w
        = Fatal err (w\<lparr>training := False, grads := g\<rparr>)"
      by (simp add: vp v)
    ultimately show ?thesis by (rule loop)
  next
    case (Ok acc v)
    with r have v: "v = ?w" by simp
    from Ok have tp: "test_pass env cfg epoch w
        = finish_split env cfg epoch ''test'' (length ?bs) (test_size env cfg) acc ?w"
      unfolding v by (rule test_pass_Ok)
    from Ok have vq: "run_phase (test_as_val env) cfg epoch Val w
        = finish_split env cfg epoch ''val'' (length ?bs) (test_size env cfg) acc
            (w\<lparr>training := False, grads := g\<rparr>)"
      by (simp add: vp v)
    show ?thesis
    proof (cases "epoch_metrics env (length ?bs) (test_size env cfg) acc")
      case (Inl err)
      have "test_pass env cfg epoch w = Fatal err ?w"
        by (simp add: tp finish_split_Inl [OF Inl])
      moreover have "run_phase (test_as_val env) cfg epoch Val w
          = Fatal err (w\<lparr>training := False, grads := g\<rparr>)"
        by (simp add: vq finish_split_Inl [OF Inl])
      ultimately show ?thesis by (rule metric)
    next
      case (Inr m)
      from Ok have "?r = Ok acc ?w" by (simp add: v)
      moreover note Inr
      moreover have "test_pass env cfg epoch w
         = Ok () (log_metrics ''test'' m epoch
                   (save_to_csv epoch ''test'' (running_labels acc) (running_probs acc)
                      (predictions_dir cfg) ?w))"
        by (simp add: tp finish_split_Inr [OF Inr])
      moreover have "run_phase (test_as_val env) cfg epoch Val w
         = Ok () (log_metrics ''val'' m epoch
                   (save_to_csv epoch ''val'' (running_labels acc) (running_probs acc)
                      (predictions_dir cfg) (w\<lparr>training := False, grads := g\<rparr>)))"
        by (simp add: vq finish_split_Inr [OF Inr])
      ultimately show ?thesis by (rule finished)
    qed
  qed
qed

section \<open>The claims\<close>

text \<open>
  C9. The test pass evaluates as the validation phase does. Beside a test pass, take
  the validation phase of an environment whose validation split is the test split,
  started in the same state: the two end in the same way (normally, or with the same
  exception), with the same parameters, optimiser state, schedule and mode, the
  network being in evaluation mode; they log the same values at the same epoch, the
  pass under the five tags of the test namespace and the phase under those of the
  validation namespace; and the dump the pass writes for the test split holds what
  the phase writes for the validation split. The pass leaves the gradient buffers,
  the schedule, the optimiser and the parameters as they were and does not depend on
  what a schedule step would do. The only file it changes is the prediction dump of
  the test split for its epoch, which is a dump and not a checkpoint; when it fails
  it changes no file at all.
\<close>

theorem test_pass_no_schedule_no_checkpoint:
  "failure (test_pass env cfg epoch w) = failure (run_phase (test_as_val env) cfg epoch Val w)
   \<and> params (final_world (test_pass env cfg epoch w))
       = params (final_world (run_phase (test_as_val env) cfg epoch Val w))
   \<and> opt_state (final_world (test_pass env cfg epoch w))
       = opt_state (final_world (run_phase (test_as_val env) cfg epoch Val w))
   \<and> sched (final_world (test_pass env cfg epoch w))
       = sched (final_world (run_phase (test_as_val env) cfg epoch Val w))
   \<and> training (final_world (test_pass env cfg epoch w))
       = training (final_world (run_phase (test_as_val env) cfg epoch Val w))
   \<and> \<not> training (final_world (test_pass env cfg epoch w))
   \<and> map snd (scalars (final_world (test_pass env cfg epoch w)))
       = map snd (scalars (final_world (run_phase (test_as_val env) cfg epoch Val w)))
   \<and> take (length (scalars w)) (scalars (final_world (test_pass env cfg epoch w))) = scalars w
   \<and> map fst (drop (length (scalars w)) (scalars (final_world (test_pass env cfg epoch w))))
       = (if is_ok (test_pass env cfg epoch w) then metric_tags ''test'' else [])
   \<and> map fst (drop (length (scalars w))
        (scalars (final_world (run_phase (test_as_val env) cfg epoch Val w))))
       = (if is_ok (test_pass env cfg epoch w) then metric_tags ''val'' else [])
   \<and> files (final_world (test_pass env cfg epoch w))
       = (if is_ok (test_pass env cfg epoch w)
          then (files w)(dump_file cfg ''test'' epoch :=
                  files (final_world (run_phase (test_as_val env) cfg epoch Val w))
                    (dump_file cfg ''val'' epoch))
          else files w)
   \<and> grads (final_world (test_pass env cfg epoch w)) = grads w
   \<and> sched (final_world (test_pass env cfg epoch w)) = sched w
   \<and> opt_state (final_world (test_pass env cfg epoch w)) = opt_state w
   \<and> params (final_world (test_pass env cfg epoch w)) = params w
   \<and> test_pass (env\<lparr>scheduler_step := ss\<rparr>) cfg epoch w = test_pass env cfg epoch w
   \<and> (files (final_world (test_pass env cfg epoch w)) q \<noteq> files w q \<longrightarrow>
        q = dump_file cfg ''test'' epoch
        \<and> (\<exists>rows. files (final_world (test_pass env cfg epoch w)) q = Some (Csv rows)))"
proof -
  have "test_pass (env\<lparr>zero_grad := zero_grad env, backward := backward env,
            optimizer_step := optimizer_step env, scheduler_step := ss\<rparr>) cfg epoch w
          = test_pass env cfg epoch w"
    by (rule test_pass_env)
  then have indep: "test_pass (env\<lparr>scheduler_step := ss\<rparr>) cfg epoch w = test_pass env cfg epoch w"
    by simp
  show ?thesis
  proof (cases rule: test_pass_cases [of env cfg epoch w])
    case (loop err g)
    then show ?thesis using indep by simp
  next
    case (metric err g)
    then show ?thesis using indep by simp
  next
    case (finished acc m g)
    note t = finished(3) and v = finished(4)
    show ?thesis
      unfolding t v indep
      by (simp add: log_metrics_fields save_to_csv_fields metric_entries_fields)
  qed
qed

theorem test_pass_no_schedule_no_checkpoint_witness:
  "is_ok (test_pass demo demo_cfg 0 demo_world)
   \<and> files (final_world (test_pass demo demo_cfg 0 demo_world)) (dump_file demo_cfg ''test'' 0)
       = Some (Csv [[Str ''TrueLabel'', Str ''Probability''],
                    [Num 0, Flt (3 / 5)], [Num 1, Flt (9 / 10)]])
   \<and> files (final_world (test_pass demo demo_cfg 0 demo_world)) (ckpt_file demo_cfg 0)
       = files demo_world (ckpt_file demo_cfg 0)
   \<and> map fst (scalars (final_world (test_pass demo demo_cfg 0 demo_world)))
       = [''data/test_loss_epoch'', ''data/test_acc_epoch'', ''data/test_auc_epoch'',
          ''data/test_sensitivity_epoch'', ''data/test_specificity_epoch'']"
proof -
  have ok: "is_ok (test_pass demo demo_cfg 0 demo_world)" by code_simp
  have v: "files (final_world (run_phase (test_as_val demo) demo_cfg 0 Val demo_world))
             (dump_file demo_cfg ''val'' 0)
       = Some (Csv [[Str ''TrueLabel'', Str ''Probability''],
                    [Num 0, Flt (3 / 5)], [Num 1, Flt (9 / 10)]])"
    by code_simp
  have s: "scalars demo_world = []"
    by (simp add: demo_world_def initial_world_def Let_def split: prod.splits)
  note c = test_pass_no_schedule_no_checkpoint
    [of demo demo_cfg 0 demo_world "scheduler_step demo" "ckpt_file demo_cfg 0"]
  from c have c1: "files (final_world (test_pass demo demo_cfg 0 demo_world))
       = (if is_ok (test_pass demo demo_cfg 0 demo_world)
          then (files demo_world)(dump_file demo_cfg ''test'' 0 :=
                  files (final_world (run_phase (test_as_val demo) demo_cfg 0 Val demo_world))
                    (dump_file demo_cfg ''val'' 0))
          else files demo_world)"
    by (elim conjE)
  from c have c2: "map fst (drop (length (scalars demo_world))
          (scalars (final_world (test_pass demo demo_cfg 0 demo_world))))
       = (if is_ok (test_pass demo demo_cfg 0 demo_world) then metric_tags ''test'' else [])"
    by (elim conjE)
  from c have c3: "files (final_world (test_pass demo demo_cfg 0 demo_world)) (ckpt_file demo_cfg 0)
        \<noteq> files demo_world (ckpt_file demo_cfg 0) \<longrightarrow>
        ckpt_file demo_cfg 0 = dump_file demo_cfg ''test'' 0
        \<and> (\<exists>rows. files (final_world (test_pass demo demo_cfg 0 demo_world)) (ckpt_file demo_cfg 0)
              = Some (Csv rows))"
    by (elim conjE)
  have f: "files (final_world (test_pass demo demo_cfg 0 demo_world))
      (dump_file demo_cfg ''test'' 0)
       = Some (Csv [[Str ''TrueLabel'', Str ''Probability''],
                    [Num 0, Flt (3 / 5)], [Num 1, Flt (9 / 10)]])"
    unfolding c1 using ok by (simp add: v)
  have k: "files (final_world (test_pass demo demo_cfg 0 demo_world)) (ckpt_file demo_cfg 0)
       = files demo_world (ckpt_file demo_cfg 0)"
  proof (rule ccontr)
    assume "files (final_world (test_pass demo demo_cfg 0 demo_world)) (ckpt_file demo_cfg 0)
       \<noteq> files demo_world (ckpt_file demo_cfg 0)"
    with c3 have "ckpt_file demo_cfg 0 = dump_file demo_cfg ''test'' 0" by (elim impE conjE)
    with ckpt_file_neq_dump_file [of demo_cfg 0 "''test''" 0] show False by (elim notE)
  qed
  have t: "map fst (scalars (final_world (test_pass demo demo_cfg 0 demo_world)))
       = metric_tags ''test''"
    using c2 ok by (simp add: s)
  have m: "metric_tags ''test''
       = [''data/test_loss_epoch'', ''data/test_acc_epoch'', ''data/test_auc_epoch'',
          ''data/test_sensitivity_epoch'', ''data/test_specificity_epoch'']"
    by (simp add: metric_tags_def)
  show ?thesis
    unfolding t m by (intro conjI ok f k refl)
qed

text \<open>
  C10. A validation phase and a test pass leave the model parameters and the optimiser
  state as they were, whether they end normally or in an error; and neither depends
  on the backward pass or on the optimiser step, which they never call.
\<close>

theorem evaluation_keeps_trainable_state:
  "params (final_world (run_phase env cfg epoch Val w)) = params w
   \<and> opt_state (final_world (run_phase env cfg epoch Val w)) = opt_state w
   \<and> params (final_world (test_pass env cfg epoch w)) = params w
   \<and> opt_state (final_world (test_pass env cfg epoch w)) = opt_state w
   \<and> run_phase (env\<lparr>backward := bw, optimizer_step := st\<rparr>) cfg epoch Val w
       = run_phase env cfg epoch Val w
   \<and> test_pass (env\<lparr>backward := bw, optimizer_step := st\<rparr>) cfg epoch w
       = test_pass env cfg epoch w"
proof -
  have "test_pass (env\<lparr>zero_grad := zero_grad env, backward := bw,
            optimizer_step := st, scheduler_step := scheduler_step env\<rparr>) cfg epoch w
          = test_pass env cfg epoch w"
    by (rule test_pass_env)
  then have t: "test_pass (env\<lparr>backward := bw, optimizer_step := st\<rparr>) cfg epoch w
          = test_pass env cfg epoch w"
    by simp
  from t run_phase_Val_env [where env = env and bw = bw and st = st and cfg = cfg and epoch = epoch and w = w]
    run_phase_Val_trainable [of env cfg epoch w] test_pass_frame [of env cfg epoch w]
  show ?thesis by simp
qed


end
